theory Spec2Isabelle
  imports Main "HOL-Library.Sublist" "HOL-Library.Monad_Syntax" "HOL-Library.AList"
begin

section \<open>Strings of the runtime\<close>

text \<open>
  A string of the program is a \<open>string\<close>: the text in its UTF-8 encoding. The characters
  the handler searches for (space, \<open>+\<close>, \<open>0\<close>, \<open>Z\<close>) are ASCII, and an ASCII byte never
  occurs inside the encoding of another character, so searching and replacing on the
  bytes gives what the runtime gives on its code units.
\<close>

definition endsWith :: "string \<Rightarrow> string \<Rightarrow> bool" where
  \<comment> \<open>\<open>s.endsWith(suf)\<close>\<close>
  "endsWith s suf =
     (length suf \<le> length s \<and> drop (length s - length suf) s = suf)"

fun String_replace :: "string \<Rightarrow> string \<Rightarrow> string \<Rightarrow> string" where
  \<comment> \<open>\<open>s.replace(pat, rep)\<close> with a string pattern: only the first occurrence of \<open>pat\<close>
      is replaced. The replacement is taken literally, which is what the runtime does
      for a replacement without \<open>$\<close>.\<close>
  "String_replace pat rep [] = (if pat = [] then rep else [])"
| "String_replace pat rep (c # cs) =
     (if prefix pat (c # cs) then rep @ drop (length pat) (c # cs)
      else c # String_replace pat rep cs)"

definition replace_at_end :: "string \<Rightarrow> string \<Rightarrow> string \<Rightarrow> string" where
  \<comment> \<open>\<open>s.replace(/lit$/, rep)\<close> for a literal \<open>lit\<close>: without the multiline flag \<open>$\<close>
      matches at the end of the input only, so the one possible match is the suffix.\<close>
  "replace_at_end lit rep s =
     (if endsWith s lit then take (length s - length lit) s @ rep else s)"

section \<open>Timestamp normalization (index.ts, lines 70 to 76)\<close>

definition detectedAtString :: "string \<Rightarrow> string" where
  "detectedAtString detected_at =
     (let s = replace_at_end ''+00'' ''Z'' (String_replace '' '' ''T'' detected_at)
      in if \<not> endsWith s ''Z'' then s @ ''Z'' else s)"

section \<open>What the runtime leaves open\<close>

text \<open>
  The handler calls into the JavaScript runtime. Where the result of such a call is fixed
  by the language standard for the inputs at hand, the call is modelled below. Where it
  depends on the implementation, on its locale and time-zone data or on floating point,
  it is a field of this record, and every theorem holds for all values of the fields.
\<close>

record runtime =
  Date_parse_other :: "string \<Rightarrow> int option"
    \<comment> \<open>\<open>new Date(s)\<close> for every string outside the UTC date-time form parsed by
        \<open>iso_utc_fields\<close> (\<open>None\<close> is the invalid date)\<close>
  toLocaleString_early :: "int \<Rightarrow> string"
    \<comment> \<open>the rendering of an instant before 1991, when Asia/Manila had other offsets\<close>
  day_period_space :: string
    \<comment> \<open>the blank between the minutes and AM/PM: a space, or U+202F with newer locale
        data\<close>
  Number_text :: "string \<Rightarrow> string"
    \<comment> \<open>the text \<open>JSON.stringify\<close> gives the double read from a number literal\<close>

definition sample_runtime :: runtime where
  \<comment> \<open>one runtime, for the examples: older locale data (a plain space before AM/PM);
      the other fields are not consulted by any example\<close>
  "sample_runtime =
     \<lparr>Date_parse_other = (\<lambda>_. None), toLocaleString_early = (\<lambda>_. []),
      day_period_space = '' '', Number_text = (\<lambda>lit. lit)\<rparr>"

section \<open>Dates\<close>

definition digits :: "string \<Rightarrow> nat option" where
  "digits s =
     (if s \<noteq> [] \<and> list_all (\<lambda>c. 48 \<le> (of_char c :: nat) \<and> (of_char c :: nat) \<le> 57) s
      then Some (foldl (\<lambda>n c. 10 * n + (of_char c - 48)) 0 s) else None)"

definition field :: "string \<Rightarrow> nat \<Rightarrow> nat \<Rightarrow> nat option" where
  "field s i n = digits (take n (drop i s))"

definition leap_year :: "int \<Rightarrow> bool" where
  "leap_year y = (y mod 400 = 0 \<or> (y mod 4 = 0 \<and> y mod 100 \<noteq> 0))"

definition days_in_month :: "int \<Rightarrow> nat \<Rightarrow> nat" where
  "days_in_month y m =
     (if m = 2 then (if leap_year y then 29 else 28)
      else if m = 4 \<or> m = 6 \<or> m = 9 \<or> m = 11 then 30 else 31)"

definition days_from_civil :: "int \<Rightarrow> int \<Rightarrow> int \<Rightarrow> int" where
  \<comment> \<open>the day number of a date of the proleptic Gregorian calendar, 1970-01-01 being 0\<close>
  "days_from_civil y m d =
     (let y' = (if m \<le> 2 then y - 1 else y);
          era = y' div 400;
          yoe = y' - era * 400;
          doy = (153 * (if m > 2 then m - 3 else m + 9) + 2) div 5 + d - 1;
          doe = yoe * 365 + yoe div 4 - yoe div 100 + doy
      in era * 146097 + doe - 719468)"

definition civil_from_days :: "int \<Rightarrow> int \<times> int \<times> int" where
  \<comment> \<open>year, month (1 to 12) and day of the month of a day number\<close>
  "civil_from_days z0 =
     (let z = z0 + 719468;
          era = z div 146097;
          doe = z - era * 146097;
          yoe = (doe - doe div 1460 + doe div 36524 - doe div 146096) div 365;
          doy = doe - (365 * yoe + yoe div 4 - yoe div 100);
          mp = (5 * doy + 2) div 153;
          d = doy - (153 * mp + 2) div 5 + 1;
          m = (if mp < 10 then mp + 3 else mp - 9)
      in (yoe + era * 400 + (if m \<le> 2 then 1 else 0), m, d))"

definition iso_utc_fields :: "string \<Rightarrow> (nat \<times> nat \<times> nat \<times> nat \<times> nat \<times> nat \<times> nat) option" where
  \<comment> \<open>the fields of \<open>YYYY-MM-DDTHH:mm:ssZ\<close> and of \<open>YYYY-MM-DDTHH:mm:ss.sssZ\<close>, the
      date-time format of the language standard with the UTC designator, when every
      field is in range\<close>
  "iso_utc_fields s =
     (if (length s = 20 \<or> length s = 24)
         \<and> take 1 (drop 4 s) = ''-'' \<and> take 1 (drop 7 s) = ''-''
         \<and> take 1 (drop 10 s) = ''T'' \<and> take 1 (drop 13 s) = '':''
         \<and> take 1 (drop 16 s) = '':''
         \<and> drop 19 s = (if length s = 20 then ''Z'' else ''.'' @ take 3 (drop 20 s) @ ''Z'')
      then do {
        y \<leftarrow> field s 0 4;
        m \<leftarrow> field s 5 2;
        d \<leftarrow> field s 8 2;
        h \<leftarrow> field s 11 2;
        mi \<leftarrow> field s 14 2;
        sec \<leftarrow> field s 17 2;
        ms \<leftarrow> (if length s = 20 then Some 0 else field s 20 3);
        if 1 \<le> m \<and> m \<le> 12 \<and> 1 \<le> d \<and> d \<le> days_in_month (int y) m
           \<and> h \<le> 23 \<and> mi \<le> 59 \<and> sec \<le> 59
        then Some (y, m, d, h, mi, sec, ms) else None
      }
      else None)"

definition utc_time_value :: "nat \<times> nat \<times> nat \<times> nat \<times> nat \<times> nat \<times> nat \<Rightarrow> int" where
  \<comment> \<open>milliseconds since 1970-01-01T00:00:00Z\<close>
  "utc_time_value f =
     (case f of (y, m, d, h, mi, sec, ms) \<Rightarrow>
        days_from_civil (int y) (int m) (int d) * 86400000
        + int h * 3600000 + int mi * 60000 + int sec * 1000 + int ms)"

definition Date_new :: "runtime \<Rightarrow> string \<Rightarrow> int option" where
  \<comment> \<open>\<open>new Date(s)\<close>: the time value, \<open>None\<close> for the invalid date\<close>
  "Date_new rt s =
     (case iso_utc_fields s of
        Some f \<Rightarrow> Some (utc_time_value f)
      | None \<Rightarrow> Date_parse_other rt s)"

definition two_digits :: "nat \<Rightarrow> string" where
  "two_digits n = [''0123456789'' ! ((n div 10) mod 10), ''0123456789'' ! (n mod 10)]"

fun decimal :: "nat \<Rightarrow> string" where
  "decimal n =
     (if n < 10 then [''0123456789'' ! n] else decimal (n div 10) @ [''0123456789'' ! (n mod 10)])"

declare decimal.simps [simp del]

definition month_short :: "nat \<Rightarrow> string" where
  "month_short m =
     [''Jan'', ''Feb'', ''Mar'', ''Apr'', ''May'', ''Jun'',
      ''Jul'', ''Aug'', ''Sep'', ''Oct'', ''Nov'', ''Dec''] ! (m - 1)"

definition toLocaleString :: "runtime \<Rightarrow> int option \<Rightarrow> string" where
  \<comment> \<open>\<open>date.toLocaleString('en-US', options)\<close> with the options of the handler: hour and
      minute \<open>2-digit\<close>, \<open>hour12\<close>, month \<open>short\<close>, day \<open>2-digit\<close>, year \<open>numeric\<close>, time
      zone Asia/Manila (eight hours ahead of UTC since 1991). The locale decides the
      order of the fields, not the options: en-US puts the date first.\<close>
  "toLocaleString rt date =
     (case date of
        None \<Rightarrow> ''Invalid Date''
      | Some t \<Rightarrow>
          if t < 662688000000 then toLocaleString_early rt t
          else
            (let local = t + 8 * 3600000;
                 (y, m, d) = civil_from_days (local div 86400000);
                 h = nat ((local mod 86400000) div 3600000);
                 mi = nat ((local mod 3600000) div 60000)
             in month_short (nat m) @ '' '' @ two_digits (nat d) @ '', '' @ decimal (nat y)
                @ '', '' @ two_digits (if h mod 12 = 0 then 12 else h mod 12) @ '':''
                @ two_digits mi @ day_period_space rt @ (if h < 12 then ''AM'' else ''PM'')))"

definition detectedAtUTC :: "runtime \<Rightarrow> string \<Rightarrow> int option" where
  "detectedAtUTC rt detected_at = Date_new rt (detectedAtString detected_at)"

definition formattedTime :: "runtime \<Rightarrow> string \<Rightarrow> string" where
  "formattedTime rt detected_at = toLocaleString rt (detectedAtUTC rt detected_at)"


section \<open>JSON values\<close>

text \<open>
  The values \<open>JSON.parse\<close> builds and \<open>JSON.stringify\<close> writes. A number keeps the
  literal it was read from; what the runtime prints for it is \<open>Number_text\<close>. The
  members of an object are kept in the order in which the runtime enumerates them. A
  string holds its text as bytes, and a surrogate that an escape names on its own is
  kept in the three-byte form that well-formed UTF-8 leaves unused.
\<close>

datatype json =
    JNull
  | JBool bool
  | JNumber string
  | JString string
  | JArray "json list"
  | JObject "(string \<times> json) list"

subsection \<open>Decoding the bytes of a body\<close>

text \<open>
  A body is decoded as UTF-8 before it is parsed: a byte order mark at its head is
  dropped, and every ill-formed sequence becomes one replacement character U+FFFD.
  \<open>utf8_scan\<close> carries the number of continuation bytes still needed, the range allowed
  for the next one, and the bytes of the character seen so far.
\<close>

definition replacement :: string where
  "replacement = [CHR 0xEF, CHR 0xBF, CHR 0xBD]"

fun utf8_scan :: "nat \<Rightarrow> nat \<Rightarrow> nat \<Rightarrow> string \<Rightarrow> string \<Rightarrow> string" where
  "utf8_scan 0 lo hi seen [] = []"
| "utf8_scan (Suc n) lo hi seen [] = replacement"
| "utf8_scan 0 lo hi seen (c # cs) =
     (let b = (of_char c :: nat) in
      if b \<le> 0x7F then c # utf8_scan 0 0x80 0xBF [] cs
      else if 0xC2 \<le> b \<and> b \<le> 0xDF then utf8_scan 1 0x80 0xBF [c] cs
      else if 0xE0 \<le> b \<and> b \<le> 0xEF then
        utf8_scan 2 (if b = 0xE0 then 0xA0 else 0x80) (if b = 0xED then 0x9F else 0xBF) [c] cs
      else if 0xF0 \<le> b \<and> b \<le> 0xF4 then
        utf8_scan 3 (if b = 0xF0 then 0x90 else 0x80) (if b = 0xF4 then 0x8F else 0xBF) [c] cs
      else replacement @ utf8_scan 0 0x80 0xBF [] cs)"
| "utf8_scan (Suc n) lo hi seen (c # cs) =
     (if lo \<le> (of_char c :: nat) \<and> (of_char c :: nat) \<le> hi then
        (if n = 0 then seen @ [c] @ utf8_scan 0 0x80 0xBF [] cs
         else utf8_scan n 0x80 0xBF (seen @ [c]) cs)
      else replacement @ utf8_scan 0 0x80 0xBF [] (c # cs))"

definition utf8_decode :: "string \<Rightarrow> string" where
  "utf8_decode bytes =
     utf8_scan 0 0x80 0xBF []
       (if prefix [CHR 0xEF, CHR 0xBB, CHR 0xBF] bytes then drop 3 bytes else bytes)"

subsection \<open>Reading a JSON text\<close>

datatype token =
    TLBrace | TRBrace | TLBracket | TRBracket | TColon | TComma
  | TString string
  | TAtom json

definition hex_digit :: "char \<Rightarrow> nat option" where
  "hex_digit c =
     (let n = (of_char c :: nat) in
      if 48 \<le> n \<and> n \<le> 57 then Some (n - 48)
      else if 65 \<le> n \<and> n \<le> 70 then Some (n - 55)
      else if 97 \<le> n \<and> n \<le> 102 then Some (n - 87)
      else None)"

definition hex4 :: "string \<Rightarrow> nat option" where
  \<comment> \<open>the code unit of the four hexadecimal digits at the head of the text\<close>
  "hex4 cs =
     (case map hex_digit (take 4 cs) of
        [Some a, Some b, Some c, Some d] \<Rightarrow> Some (((a * 16 + b) * 16 + c) * 16 + d)
      | _ \<Rightarrow> None)"

definition utf8_encode :: "nat \<Rightarrow> string" where
  \<comment> \<open>the bytes of a code point; a surrogate that stands alone keeps its three-byte
      form, which decoded text never contains\<close>
  "utf8_encode n =
     (if n < 0x80 then [char_of n]
      else if n < 0x800 then [char_of (0xC0 + n div 64), char_of (0x80 + n mod 64)]
      else if n < 0x10000 then
        [char_of (0xE0 + n div 4096), char_of (0x80 + (n div 64) mod 64),
         char_of (0x80 + n mod 64)]
      else
        [char_of (0xF0 + n div 262144), char_of (0x80 + (n div 4096) mod 64),
         char_of (0x80 + (n div 64) mod 64), char_of (0x80 + n mod 64)])"

definition low_surrogate_escape :: "string \<Rightarrow> nat option" where
  \<comment> \<open>the code unit of an escaped low surrogate (DC00 to DFFF) at the head of the text\<close>
  "low_surrogate_escape cs =
     (if take 2 cs = [CHR 0x5C, CHR ''u''] then
        (case hex4 (drop 2 cs) of
           Some lo \<Rightarrow> if 0xDC00 \<le> lo \<and> lo \<le> 0xDFFF then Some lo else None
         | None \<Rightarrow> None)
      else None)"

definition simple_escape :: "char \<Rightarrow> char option" where
  "simple_escape e =
     (if e = CHR 0x22 \<or> e = CHR 0x5C \<or> e = CHR ''/'' then Some e
      else if e = CHR ''b'' then Some (CHR 0x08)
      else if e = CHR ''f'' then Some (CHR 0x0C)
      else if e = CHR ''n'' then Some (CHR 0x0A)
      else if e = CHR ''r'' then Some (CHR 0x0D)
      else if e = CHR ''t'' then Some (CHR 0x09)
      else None)"

definition number_char :: "char \<Rightarrow> bool" where
  "number_char c = (c \<in> set ''-+.eE0123456789'')"

definition all_digits :: "string \<Rightarrow> bool" where
  "all_digits s = (s \<noteq> [] \<and> list_all (\<lambda>c. c \<in> set ''0123456789'') s)"

definition number_literal :: "string \<Rightarrow> bool" where
  \<comment> \<open>the grammar of a JSON number: an optional minus, an integer without a leading
      zero, an optional fraction, an optional exponent\<close>
  "number_literal s =
     (let unsigned = (if take 1 s = ''-'' then drop 1 s else s);
          mantissa = takeWhile (\<lambda>c. c \<noteq> CHR ''e'' \<and> c \<noteq> CHR ''E'') unsigned;
          exponent = dropWhile (\<lambda>c. c \<noteq> CHR ''e'' \<and> c \<noteq> CHR ''E'') unsigned;
          whole = takeWhile (\<lambda>c. c \<noteq> CHR ''.'') mantissa;
          fraction = dropWhile (\<lambda>c. c \<noteq> CHR ''.'') mantissa
      in all_digits whole \<and> (whole = ''0'' \<or> take 1 whole \<noteq> ''0'')
         \<and> (fraction = [] \<or> all_digits (drop 1 fraction))
         \<and> (exponent = [] \<or>
              all_digits (if take 1 (drop 1 exponent) = ''+'' \<or> take 1 (drop 1 exponent) = ''-''
                          then drop 2 exponent else drop 1 exponent)))"

fun lex :: "string \<Rightarrow> token list option"
  and lex_string :: "string \<Rightarrow> string \<Rightarrow> token list option"
  and lex_number :: "string \<Rightarrow> string \<Rightarrow> token list option"
where
  "lex [] = Some []"
| "lex (c # cs) =
     (if c = CHR '' '' \<or> c = CHR 0x09 \<or> c = CHR 0x0A \<or> c = CHR 0x0D then lex cs
      else if c = CHR ''{'' then map_option (Cons TLBrace) (lex cs)
      else if c = CHR ''}'' then map_option (Cons TRBrace) (lex cs)
      else if c = CHR ''['' then map_option (Cons TLBracket) (lex cs)
      else if c = CHR '']'' then map_option (Cons TRBracket) (lex cs)
      else if c = CHR '':'' then map_option (Cons TColon) (lex cs)
      else if c = CHR '','' then map_option (Cons TComma) (lex cs)
      else if c = CHR 0x22 then lex_string [] cs
      else if prefix ''true'' (c # cs) then
        map_option (Cons (TAtom (JBool True))) (lex (drop 3 cs))
      else if prefix ''false'' (c # cs) then
        map_option (Cons (TAtom (JBool False))) (lex (drop 4 cs))
      else if prefix ''null'' (c # cs) then
        map_option (Cons (TAtom JNull)) (lex (drop 3 cs))
      else if number_char c then lex_number [c] cs
      else None)"
| "lex_string acc [] = None"
| "lex_string acc (c # cs) =
     (if c = CHR 0x22 then map_option (Cons (TString acc)) (lex cs)
      else if c = CHR 0x5C then
        (case cs of
           [] \<Rightarrow> None
         | e # es \<Rightarrow>
             if e = CHR ''u'' then
               (case hex4 es of
                  None \<Rightarrow> None
                | Some u \<Rightarrow>
                    if 0xD800 \<le> u \<and> u \<le> 0xDBFF then
                      (case low_surrogate_escape (drop 4 es) of
                         Some lo \<Rightarrow>
                           lex_string
                             (acc @ utf8_encode (0x10000 + (u - 0xD800) * 1024 + (lo - 0xDC00)))
                             (drop 10 es)
                       | None \<Rightarrow> lex_string (acc @ utf8_encode u) (drop 4 es))
                    else lex_string (acc @ utf8_encode u) (drop 4 es))
             else
               (case simple_escape e of
                  None \<Rightarrow> None
                | Some x \<Rightarrow> lex_string (acc @ [x]) es))
      else if (of_char c :: nat) < 0x20 then None
      else lex_string (acc @ [c]) cs)"
| "lex_number acc [] =
     (if number_literal acc then Some [TAtom (JNumber acc)] else None)"
| "lex_number acc (c # cs) =
     (if number_char c then lex_number (acc @ [c]) cs
      else if number_literal acc then map_option (Cons (TAtom (JNumber acc))) (lex (c # cs))
      else None)"

subsection \<open>The members of an object\<close>

definition array_index :: "string \<Rightarrow> nat option" where
  \<comment> \<open>a key that is an array index: the canonical decimal of a number below \<open>2^32 - 1\<close>\<close>
  "array_index k =
     (case digits k of
        Some n \<Rightarrow> if (k = ''0'' \<or> take 1 k \<noteq> ''0'') \<and> int n < 4294967295 then Some n else None
      | None \<Rightarrow> None)"

definition define_member :: "string \<Rightarrow> json \<Rightarrow> (string \<times> json) list \<Rightarrow> (string \<times> json) list" where
  \<comment> \<open>a member read for a key already present replaces the value and keeps the place\<close>
  "define_member k v ms = AList.update k v ms"

definition own_members :: "(string \<times> json) list \<Rightarrow> (string \<times> json) list" where
  \<comment> \<open>the order in which the members of an object are enumerated: the array indices
      ascending, then the other keys as they were created\<close>
  "own_members ms =
     sort_key (\<lambda>m. case array_index (fst m) of Some n \<Rightarrow> n | None \<Rightarrow> 0)
       (filter (\<lambda>m. \<not> Option.is_none (array_index (fst m))) ms)
     @ filter (\<lambda>m. Option.is_none (array_index (fst m))) ms"

subsection \<open>The grammar\<close>

text \<open>
  The tokens are read by a machine with a stack of the arrays and objects still open:
  one step for each token, so that reading is total, and the text is accepted when the
  machine has finished one value at its end.
\<close>

datatype frame =
    In_array "json list"
  | In_object "(string \<times> json) list" string

datatype parser =
    Expect_value "frame list"
  | Array_open "frame list"
  | Array_more "json list" "frame list"
  | Object_open "frame list"
  | Expect_key "(string \<times> json) list" "frame list"
  | Expect_colon "(string \<times> json) list" string "frame list"
  | Object_more "(string \<times> json) list" "frame list"
  | Finished json

fun complete :: "json \<Rightarrow> frame list \<Rightarrow> parser" where
  "complete v [] = Finished v"
| "complete v (In_array elems # stack) = Array_more (elems @ [v]) stack"
| "complete v (In_object ms k # stack) = Object_more (define_member k v ms) stack"

fun start_value :: "token \<Rightarrow> frame list \<Rightarrow> parser option" where
  "start_value TLBrace stack = Some (Object_open stack)"
| "start_value TLBracket stack = Some (Array_open stack)"
| "start_value (TString s) stack = Some (complete (JString s) stack)"
| "start_value (TAtom v) stack = Some (complete v stack)"
| "start_value _ stack = None"

fun step :: "parser \<Rightarrow> token \<Rightarrow> parser option" where
  "step (Expect_value stack) t = start_value t stack"
| "step (Array_open stack) t =
     (if t = TRBracket then Some (complete (JArray []) stack)
      else start_value t (In_array [] # stack))"
| "step (Array_more elems stack) t =
     (if t = TComma then Some (Expect_value (In_array elems # stack))
      else if t = TRBracket then Some (complete (JArray elems) stack)
      else None)"
| "step (Object_open stack) t =
     (case t of
        TRBrace \<Rightarrow> Some (complete (JObject []) stack)
      | TString k \<Rightarrow> Some (Expect_colon [] k stack)
      | _ \<Rightarrow> None)"
| "step (Expect_key ms stack) t =
     (case t of TString k \<Rightarrow> Some (Expect_colon ms k stack) | _ \<Rightarrow> None)"
| "step (Expect_colon ms k stack) t =
     (if t = TColon then Some (Expect_value (In_object ms k # stack)) else None)"
| "step (Object_more ms stack) t =
     (if t = TComma then Some (Expect_key ms stack)
      else if t = TRBrace then Some (complete (JObject (own_members ms)) stack)
      else None)"
| "step (Finished v) t = None"

fun run :: "parser \<Rightarrow> token list \<Rightarrow> parser option" where
  "run p [] = Some p"
| "run p (t # ts) = (case step p t of None \<Rightarrow> None | Some p' \<Rightarrow> run p' ts)"

definition JSON_parse :: "string \<Rightarrow> json option" where
  \<comment> \<open>\<open>JSON.parse(text)\<close>; \<open>None\<close> is the SyntaxError\<close>
  "JSON_parse text =
     (case lex text of
        None \<Rightarrow> None
      | Some ts \<Rightarrow> (case run (Expect_value []) ts of Some (Finished v) \<Rightarrow> Some v | _ \<Rightarrow> None))"

subsection \<open>Writing a JSON text\<close>

definition hex_char :: "nat \<Rightarrow> char" where
  "hex_char n = ''0123456789abcdef'' ! (n mod 16)"

definition hex4_text :: "nat \<Rightarrow> string" where
  "hex4_text u = [hex_char (u div 4096), hex_char (u div 256), hex_char (u div 16), hex_char u]"

definition lone_surrogate :: "string \<Rightarrow> nat option" where
  \<comment> \<open>the code unit of a surrogate standing alone at the head of the text\<close>
  "lone_surrogate s =
     (case s of
        a # b # c # _ \<Rightarrow>
          if (of_char a :: nat) = 0xED \<and> 0xA0 \<le> (of_char b :: nat)
          then Some (0xD000 + (of_char b - 0x80) * 64 + (of_char c - 0x80))
          else None
      | _ \<Rightarrow> None)"

fun quote_chars :: "string \<Rightarrow> string" where
  "quote_chars [] = []"
| "quote_chars (c # cs) =
     (let n = (of_char c :: nat) in
      if c = CHR 0x22 then [CHR 0x5C, CHR 0x22] @ quote_chars cs
      else if c = CHR 0x5C then [CHR 0x5C, CHR 0x5C] @ quote_chars cs
      else if n = 0x08 then [CHR 0x5C, CHR ''b''] @ quote_chars cs
      else if n = 0x09 then [CHR 0x5C, CHR ''t''] @ quote_chars cs
      else if n = 0x0A then [CHR 0x5C, CHR ''n''] @ quote_chars cs
      else if n = 0x0C then [CHR 0x5C, CHR ''f''] @ quote_chars cs
      else if n = 0x0D then [CHR 0x5C, CHR ''r''] @ quote_chars cs
      else if n < 0x20 then [CHR 0x5C, CHR ''u''] @ hex4_text n @ quote_chars cs
      else
        (case lone_surrogate (c # cs) of
           Some u \<Rightarrow> [CHR 0x5C, CHR ''u''] @ hex4_text u @ quote_chars (drop 2 cs)
         | None \<Rightarrow> c # quote_chars cs))"

definition QuoteJSONString :: "string \<Rightarrow> string" where
  "QuoteJSONString s = [CHR 0x22] @ quote_chars s @ [CHR 0x22]"

fun join :: "string \<Rightarrow> string list \<Rightarrow> string" where
  "join sep [] = []"
| "join sep [x] = x"
| "join sep (x # y # ys) = x @ sep @ join sep (y # ys)"

primrec JSON_stringify :: "runtime \<Rightarrow> json \<Rightarrow> string" where
  "JSON_stringify rt JNull = ''null''"
| "JSON_stringify rt (JBool b) = (if b then ''true'' else ''false'')"
| "JSON_stringify rt (JNumber lit) = Number_text rt lit"
| "JSON_stringify rt (JString s) = QuoteJSONString s"
| "JSON_stringify rt (JArray vs) = ''['' @ join '','' (map (JSON_stringify rt) vs) @ '']''"
| "JSON_stringify rt (JObject ms) =
     ''{'' @ join '',''
        (map (\<lambda>m. QuoteJSONString (fst m) @ '':'' @ snd m)
           (map (map_prod id (JSON_stringify rt)) ms)) @ ''}''"

definition Response_json :: "string \<Rightarrow> json option" where
  \<comment> \<open>\<open>await res.json()\<close>: the body decoded as UTF-8, then parsed\<close>
  "Response_json body = JSON_parse (utf8_decode body)"

section \<open>The data of the handler\<close>

text \<open>
  The payload is the value of \<open>await req.json()\<close> as the interface
  \<open>SmokeLogWebhookPayload\<close> types it; \<open>type\<close> and \<open>table\<close> are strings that the handler
  tests. A device has the three selected columns, each of which may be null. The service
  account is the imported \<open>service-account.json\<close>.
\<close>

record SmokeLog =
  id' :: string
  device_id :: string
  detected_at :: string
  status' :: bool

record SmokeLogWebhookPayload =
  type' :: string
  table :: string
  record' :: SmokeLog
  schema :: string

record device =
  fcm_token :: "string option"
  area :: "string option"
  unit_no :: json

record serviceAccount =
  client_email :: string
  private_key :: string
  project_id :: string

subsection \<open>The device store\<close>

datatype lookup = Rows "device list" | Query_failed string

record query_result =
  data :: "device option"
  error :: "string option"

definition single :: "lookup \<Rightarrow> query_result" where
  \<comment> \<open>\<open>.single()\<close> of the store's client: the row when the query gives exactly one, and
      otherwise no data and an error (no row, several rows, a failed query)\<close>
  "single l =
     (case l of
        Rows [d] \<Rightarrow> \<lparr>data = Some d, error = None\<rparr>
      | Rows _ \<Rightarrow> \<lparr>data = None, error = Some ''PGRST116''\<rparr>
      | Query_failed e \<Rightarrow> \<lparr>data = None, error = Some e\<rparr>)"

subsection \<open>Requests and responses\<close>

record fetch_request =
  url :: string
  http_method :: string
  request_headers :: "(string \<times> string) list"
  request_body :: string

record fetch_response =
  response_status :: nat
  response_body :: string

record response =
  status :: nat
  headers :: "(string \<times> string) list"
  body :: string

definition Response_new :: "string \<Rightarrow> (string \<times> string) list \<Rightarrow> nat option \<Rightarrow> response" where
  \<comment> \<open>\<open>new Response(body, {headers, status})\<close>: without a status the response has 200\<close>
  "Response_new b hs st =
     \<lparr>status = (case st of None \<Rightarrow> 200 | Some n \<Rightarrow> n), headers = hs, body = b\<rparr>"

subsection \<open>The world around one invocation\<close>

text \<open>
  The three parties the handler awaits are functions of what it sends them. The handler
  returns its outcome (a response, or what it throws) together with the calls it has
  made, in their order.
\<close>

record world =
  device_rows :: "string \<Rightarrow> lookup"
    \<comment> \<open>what the store answers to the query for the devices with a given id\<close>
  authorize :: "string \<Rightarrow> string \<Rightarrow> string list \<Rightarrow> string + string"
    \<comment> \<open>\<open>jwtClient.authorize\<close> for an email, a key and scopes: the error (\<open>Inl\<close>) or the
        access token\<close>
  fetch :: "fetch_request \<Rightarrow> string + fetch_response"
    \<comment> \<open>the provider: a failed exchange (\<open>Inl\<close>) or its response\<close>

datatype event =
    Device_lookup string
  | Token_acquisition string string
  | Provider_call fetch_request

datatype thrown =
    Provider_error json
  | SyntaxError
  | Authorization_error string
  | Fetch_error string

datatype outcome = Returned response | Threw thrown

section \<open>The handler (index.ts)\<close>

definition getAccessToken :: "world \<Rightarrow> string \<Rightarrow> string \<Rightarrow> thrown + string" where
  "getAccessToken w clientEmail privateKey =
     (case authorize w clientEmail privateKey
             [''https://www.googleapis.com/auth/firebase.messaging''] of
        Inl err \<Rightarrow> Inl (Authorization_error err)
      | Inr access_token \<Rightarrow> Inr access_token)"

definition notifBody :: "string option \<Rightarrow> string \<Rightarrow> string" where
  \<comment> \<open>\<open>device.area || 'Unknown'\<close>: a null and an empty label are both falsy\<close>
  "notifBody device_area formatted =
     ''A SMOKE HAS BEEN DETECTED'' @ [CHR 0x0A] @ ''AT: ''
     @ (case device_area of None \<Rightarrow> ''Unknown'' | Some a \<Rightarrow> if a = [] then ''Unknown'' else a)
     @ [CHR 0x0A] @ ''ON: '' @ formatted"

definition message :: "string \<Rightarrow> string \<Rightarrow> json" where
  "message fcmToken notif_body =
     JObject [(''message'', JObject
       [(''token'', JString fcmToken),
        (''notification'', JObject
          [(''title'', JString ''Smoke Alert!''), (''body'', JString notif_body)])])]"

definition send_request :: "runtime \<Rightarrow> serviceAccount \<Rightarrow> string \<Rightarrow> string \<Rightarrow> string \<Rightarrow> fetch_request" where
  "send_request rt account accessToken fcmToken notif_body =
     \<lparr>url = ''https://fcm.googleapis.com/v1/projects/'' @ project_id account @ ''/messages:send'',
      http_method = ''POST'',
      request_headers =
        [(''Content-Type'', ''application/json''), (''Authorization'', ''Bearer '' @ accessToken)],
      request_body = JSON_stringify rt (message fcmToken notif_body)\<rparr>"

definition json_headers :: "(string \<times> string) list" where
  "json_headers = [(''Content-Type'', ''application/json'')]"

definition respond :: "runtime \<Rightarrow> fetch_response \<Rightarrow> outcome" where
  \<comment> \<open>lines 111 to 118: the body is parsed before the status is looked at\<close>
  "respond rt res =
     (case Response_json (response_body res) of
        None \<Rightarrow> Threw SyntaxError
      | Some resData \<Rightarrow>
          if response_status res < 200 \<or> 299 < response_status res
          then Threw (Provider_error resData)
          else Returned (Response_new (JSON_stringify rt resData) json_headers None))"

definition deliver :: "runtime \<Rightarrow> serviceAccount \<Rightarrow> world \<Rightarrow> SmokeLogWebhookPayload \<Rightarrow> device \<Rightarrow> string \<Rightarrow> outcome \<times> event list" where
  \<comment> \<open>lines 62 to 109: the handler from the access token to the provider call, for a
      device with a token\<close>
  "deliver rt account w payload dev fcmToken =
     (case getAccessToken w (client_email account) (private_key account) of
        Inl err \<Rightarrow> (Threw err, [Token_acquisition (client_email account) (private_key account)])
      | Inr accessToken \<Rightarrow>
          (let formatted = formattedTime rt (detected_at (record' payload));
               req = send_request rt account accessToken fcmToken (notifBody (area dev) formatted);
               trace = [Token_acquisition (client_email account) (private_key account),
                        Provider_call req]
           in case fetch w req of
                Inl err \<Rightarrow> (Threw (Fetch_error err), trace)
              | Inr res \<Rightarrow> (respond rt res, trace)))"

definition handler :: "runtime \<Rightarrow> serviceAccount \<Rightarrow> world \<Rightarrow> SmokeLogWebhookPayload \<Rightarrow> outcome \<times> event list" where
  "handler rt account w payload =
     (if type' payload \<noteq> ''INSERT'' \<or> table payload \<noteq> ''smoke_logs'' then
        (Returned (Response_new
           (JSON_stringify rt (JObject [(''message'', JString ''Not a smoke_logs insert event.'')]))
           json_headers (Some 200)), [])
      else
        (let not_found =
               Returned (Response_new
                 (JSON_stringify rt (JObject [(''error'', JString ''Device FCM token not found.'')]))
                 json_headers (Some 404));
             lookup = [Device_lookup (device_id (record' payload))]
         in case data (single (device_rows w (device_id (record' payload)))) of
              None \<Rightarrow> (not_found, lookup)
            | Some dev \<Rightarrow>
                (case fcm_token dev of
                   None \<Rightarrow> (not_found, lookup)
                 | Some fcmToken \<Rightarrow>
                     if fcmToken = [] then (not_found, lookup)
                     else (case deliver rt account w payload dev fcmToken of
                             (result, trace) \<Rightarrow> (result, lookup @ trace)))))"

section \<open>Sample inputs\<close>

text \<open>
  An insert event of device \<open>d1\<close>, a device with a token and no area, and worlds in
  which the store answers \<open>l\<close> for \<open>d1\<close>, every token request succeeds and the provider
  answers with status \<open>st\<close> and body \<open>b\<close>. \<open>sent_body\<close> is a success body as the provider
  indents it.
\<close>

definition sample_account :: serviceAccount where
  "sample_account =
     \<lparr>client_email = ''alert@p.iam.gserviceaccount.com'', private_key = ''key'', project_id = ''p''\<rparr>"

definition sample_payload :: SmokeLogWebhookPayload where
  "sample_payload =
     \<lparr>type' = ''INSERT'', table = ''smoke_logs'',
      record' = \<lparr>id' = ''7'', device_id = ''d1'', detected_at = ''2024-03-05 08:15:00+00'',
                 status' = True\<rparr>,
      schema = ''public''\<rparr>"

definition sample_device :: device where
  "sample_device = \<lparr>fcm_token = Some ''tok'', area = None, unit_no = JNull\<rparr>"

definition sample_world :: "lookup \<Rightarrow> nat \<Rightarrow> string \<Rightarrow> world" where
  "sample_world l st b =
     \<lparr>device_rows = (\<lambda>i. if i = ''d1'' then l else Rows []),
      authorize = (\<lambda>email key scopes. Inr ''ya29''),
      fetch = (\<lambda>req. Inr \<lparr>response_status = st, response_body = b\<rparr>)\<rparr>"

definition sent_body :: string where
  \<open>sent_body = ''{'' @ [CHR 0x0A] @ ''  "name": "projects/p/messages/1"'' @ [CHR 0x0A] @ ''}'' @ [CHR 0x0A]\<close>

section \<open>The normalization as the specification words it\<close>

text \<open>
  The three rewriting steps of the specification, each written from its sentence. The
  date of a timestamp holds no space, so the space separating date and time is the
  first one of the string.
\<close>

definition spec_replace_separator :: "string \<Rightarrow> string" where
  "spec_replace_separator s =
     (case dropWhile (\<lambda>c. c \<noteq> CHR '' '') s of
        [] \<Rightarrow> s
      | _ # time \<Rightarrow> takeWhile (\<lambda>c. c \<noteq> CHR '' '') s @ ''T'' @ time)"

definition spec_replace_zone :: "string \<Rightarrow> string" where
  "spec_replace_zone s = (if suffix ''+00'' s then take (length s - 3) s @ ''Z'' else s)"

definition spec_append_marker :: "string \<Rightarrow> string" where
  "spec_append_marker s = (if s \<noteq> [] \<and> last s = CHR ''Z'' then s else s @ ''Z'')"

definition spec_normalize :: "string \<Rightarrow> string" where
  "spec_normalize s = spec_append_marker (spec_replace_zone (spec_replace_separator s))"

definition well_formed_utc :: "string \<Rightarrow> bool" where
  \<comment> \<open>a well-formed UTC string: the date-time format with the UTC designator\<close>
  "well_formed_utc s = (iso_utc_fields s \<noteq> None)"

section \<open>Properties of the normalization\<close>

lemma endsWith_append [simp]: "endsWith (s @ suf) suf"
  by (simp add: endsWith_def)

text \<open>C9: whatever the input, the normalized string ends with the character Z.\<close>

theorem detectedAtString_ends_with_Z:
  "endsWith (detectedAtString s) ''Z'' \<and> detectedAtString s \<noteq> [] \<and>
   last (detectedAtString s) = CHR ''Z''"
proof -
  have e: "endsWith (detectedAtString s) ''Z''"
    by (simp add: detectedAtString_def Let_def)
  then obtain n where "drop n (detectedAtString s) = ''Z''"
    unfolding endsWith_def by blast
  then have "detectedAtString s = take n (detectedAtString s) @ ''Z''"
    by (metis append_take_drop_id)
  then have "detectedAtString s \<noteq> [] \<and> last (detectedAtString s) = CHR ''Z''"
    by (metis append_is_Nil_conv last_snoc list.distinct(1))
  with e show ?thesis by simp
qed

lemma String_replace_space: "String_replace '' '' ''T'' s = spec_replace_separator s"
proof (induction s)
  case Nil
  show ?case by (simp add: spec_replace_separator_def)
next
  case (Cons c cs)
  show ?case
  proof (cases "c = CHR '' ''")
    case True
    then show ?thesis by (simp add: spec_replace_separator_def)
  next
    case False
    then show ?thesis
      using Cons.IH
      by (simp add: spec_replace_separator_def del: dropWhile_eq_Nil_conv split: list.split)
  qed
qed

lemma endsWith_suffix: "endsWith s suf = suffix suf s"
proof
  assume "endsWith s suf"
  then have "s = take (length s - length suf) s @ suf"
    by (metis append_take_drop_id endsWith_def)
  then show "suffix suf s" by (metis suffixI)
next
  assume "suffix suf s"
  then obtain zs where "s = zs @ suf" by (auto simp: suffix_def)
  then show "endsWith s suf" by (simp add: endsWith_def)
qed

lemma replace_at_end_zone: "replace_at_end ''+00'' ''Z'' s = spec_replace_zone s"
  by (simp add: replace_at_end_def spec_replace_zone_def endsWith_suffix numeral_3_eq_3)

lemma endsWith_Z: "endsWith s ''Z'' = (s \<noteq> [] \<and> last s = CHR ''Z'')"
proof (cases s rule: rev_cases)
  case Nil
  then show ?thesis by (simp add: endsWith_def)
next
  case (snoc ys y)
  then show ?thesis by (auto simp: endsWith_def)
qed

lemma String_replace_no_space: "CHR '' '' \<notin> set s \<Longrightarrow> String_replace '' '' ''T'' s = s"
  by (induction s) auto

lemma normalized_fixed:
  assumes "CHR '' '' \<notin> set s" and "endsWith s ''Z''"
  shows "detectedAtString s = s"
proof -
  from assms(2) have l: "s \<noteq> [] \<and> last s = CHR ''Z''" by (simp add: endsWith_Z)
  have "\<not> endsWith s ''+00''"
  proof
    assume "endsWith s ''+00''"
    then obtain zs where "s = zs @ ''+00''" by (auto simp: endsWith_suffix suffix_def)
    then have "last s = CHR ''0''" by simp
    with l show False by simp
  qed
  then show ?thesis
    using assms by (simp add: detectedAtString_def Let_def String_replace_no_space replace_at_end_def)
qed

lemma digits_no_space: "digits t = Some n \<Longrightarrow> CHR '' '' \<notin> set t"
  by (auto simp: digits_def list_all_iff split: if_splits)

lemma field_no_space: "field s i n = Some v \<Longrightarrow> CHR '' '' \<notin> set (take n (drop i s))"
  unfolding field_def by (rule digits_no_space)

lemma piece: "drop i s = take n (drop i s) @ drop (i + n) s"
  by (metis add.commute append_take_drop_id drop_drop)

lemma iso_no_space:
  assumes "iso_utc_fields s = Some f"
  shows "CHR '' '' \<notin> set s \<and> endsWith s ''Z''"
proof -
  from assms have shape:
    "take 1 (drop 4 s) = ''-''" "take 1 (drop 7 s) = ''-''" "take 1 (drop 10 s) = ''T''"
    "take 1 (drop 13 s) = '':''" "take 1 (drop 16 s) = '':''"
    "drop 19 s = (if length s = 20 then ''Z'' else ''.'' @ take 3 (drop 20 s) @ ''Z'')"
    "length s = 20 \<or> length s = 24"
    by (auto simp: iso_utc_fields_def split: if_splits)
  from assms obtain y m d h mi sec ms where
    f: "field s 0 4 = Some y" "field s 5 2 = Some m" "field s 8 2 = Some d"
       "field s 11 2 = Some h" "field s 14 2 = Some mi" "field s 17 2 = Some sec"
       "(if length s = 20 then Some 0 else field s 20 3) = Some ms"
    by (auto simp: iso_utc_fields_def split: if_splits bind_splits)
  have d4: "drop 4 s = take 1 (drop 4 s) @ drop 5 s" using piece [of 4 s 1] by simp
  have d5: "drop 5 s = take 2 (drop 5 s) @ drop 7 s" using piece [of 5 s 2] by simp
  have d7: "drop 7 s = take 1 (drop 7 s) @ drop 8 s" using piece [of 7 s 1] by simp
  have d8: "drop 8 s = take 2 (drop 8 s) @ drop 10 s" using piece [of 8 s 2] by simp
  have d10: "drop 10 s = take 1 (drop 10 s) @ drop 11 s" using piece [of 10 s 1] by simp
  have d11: "drop 11 s = take 2 (drop 11 s) @ drop 13 s" using piece [of 11 s 2] by simp
  have d13: "drop 13 s = take 1 (drop 13 s) @ drop 14 s" using piece [of 13 s 1] by simp
  have d14: "drop 14 s = take 2 (drop 14 s) @ drop 16 s" using piece [of 14 s 2] by simp
  have d16: "drop 16 s = take 1 (drop 16 s) @ drop 17 s" using piece [of 16 s 1] by simp
  have d17: "drop 17 s = take 2 (drop 17 s) @ drop 19 s" using piece [of 17 s 2] by simp
  have tail: "CHR '' '' \<notin> set (drop 19 s) \<and> endsWith (drop 19 s) ''Z''"
  proof (cases "length s = 20")
    case True
    with shape(6) show ?thesis by (simp add: endsWith_def)
  next
    case False
    with f(7) have "CHR '' '' \<notin> set (take 3 (drop 20 s))" by (simp add: field_no_space)
    with False shape(6) show ?thesis by (simp add: endsWith_def)
  qed
  have s17: "CHR '' '' \<notin> set (drop 17 s)"
    using tail field_no_space [OF f(6)] by (subst d17) simp
  have s16: "CHR '' '' \<notin> set (drop 16 s)" using s17 shape(5) by (subst d16) simp
  have s14: "CHR '' '' \<notin> set (drop 14 s)"
    using s16 field_no_space [OF f(5)] by (subst d14) simp
  have s13: "CHR '' '' \<notin> set (drop 13 s)" using s14 shape(4) by (subst d13) simp
  have s11: "CHR '' '' \<notin> set (drop 11 s)"
    using s13 field_no_space [OF f(4)] by (subst d11) simp
  have s10: "CHR '' '' \<notin> set (drop 10 s)" using s11 shape(3) by (subst d10) simp
  have s8: "CHR '' '' \<notin> set (drop 8 s)"
    using s10 field_no_space [OF f(3)] by (subst d8) simp
  have s7: "CHR '' '' \<notin> set (drop 7 s)" using s8 shape(2) by (subst d7) simp
  have s5: "CHR '' '' \<notin> set (drop 5 s)"
    using s7 field_no_space [OF f(2)] by (subst d5) simp
  have s4: "CHR '' '' \<notin> set (drop 4 s)" using s5 shape(1) by (subst d4) simp
  have "set s = set (take 4 s) \<union> set (drop 4 s)"
    by (metis append_take_drop_id set_append)
  then have s0: "CHR '' '' \<notin> set s"
    using s4 field_no_space [OF f(1)] by simp
  from tail obtain zs where "drop 19 s = zs @ ''Z''"
    by (auto simp: endsWith_suffix suffix_def)
  then have "s = (take 19 s @ zs) @ ''Z''"
    by (metis append.assoc append_take_drop_id)
  then have "suffix ''Z'' s" by (metis suffixI)
  with s0 show ?thesis by (simp add: endsWith_suffix)
qed

lemma example_time_value: "utc_time_value (2024, 3, 5, 8, 15, 0, 0) = 1709626500000"
  by code_simp

text \<open>
  C4: for every input string the handler's normalization is the three steps of the
  specification in their order (the first space becomes T, a trailing +00 becomes Z, a Z
  is appended to a string that does not end with one), and the instant of the handler
  is the result of parsing that string: the UTC time value of its fields when it has the
  date-time format, and what the runtime makes of it otherwise.
\<close>

theorem detectedAtString_steps:
  "detectedAtString s = spec_normalize s \<and>
   detectedAtString s = spec_append_marker (spec_replace_zone (spec_replace_separator s)) \<and>
   detectedAtUTC rt s =
     (case iso_utc_fields (spec_normalize s) of
        Some f \<Rightarrow> Some (utc_time_value f)
      | None \<Rightarrow> Date_parse_other rt (spec_normalize s))"
proof -
  have a: "detectedAtString s = spec_normalize s"
    by (simp add: detectedAtString_def Let_def String_replace_space replace_at_end_zone
          endsWith_Z spec_append_marker_def spec_normalize_def)
  have b: "detectedAtString s =
      spec_append_marker (spec_replace_zone (spec_replace_separator s))"
    using a by (simp add: spec_normalize_def)
  have c: "detectedAtUTC rt s =
     (case iso_utc_fields (spec_normalize s) of
        Some f \<Rightarrow> Some (utc_time_value f)
      | None \<Rightarrow> Date_parse_other rt (spec_normalize s))"
    by (simp only: detectedAtUTC_def Date_new_def a)
  from a b c show ?thesis by blast
qed

text \<open>
  C8: on a well-formed UTC string the normalization changes nothing, so it is idempotent
  there and the instant parsed from the string is the same before and after.
\<close>

theorem detectedAtString_well_formed:
  assumes "well_formed_utc s"
  shows "detectedAtString s = s \<and> detectedAtString (detectedAtString s) = detectedAtString s \<and>
         Date_new rt (detectedAtString s) = Date_new rt s"
proof -
  from assms obtain f where "iso_utc_fields s = Some f"
    by (auto simp: well_formed_utc_def)
  then have "CHR '' '' \<notin> set s \<and> endsWith s ''Z''" by (rule iso_no_space)
  then have "detectedAtString s = s" by (simp add: normalized_fixed)
  then show ?thesis by simp
qed

lemma example_fields:
  "iso_utc_fields ''2024-03-05T08:15:00Z'' = Some (2024, 3, 5, 8, 15, 0, 0)"
  by code_simp

theorem detectedAtString_well_formed_witness:
  "well_formed_utc ''2024-03-05T08:15:00Z'' \<and>
   detectedAtString ''2024-03-05T08:15:00Z'' = ''2024-03-05T08:15:00Z'' \<and>
   Date_new sample_runtime (detectedAtString ''2024-03-05T08:15:00Z'') = Some 1709626500000"
proof -
  have w: "well_formed_utc ''2024-03-05T08:15:00Z''"
    by (simp add: well_formed_utc_def example_fields)
  have "Date_new sample_runtime ''2024-03-05T08:15:00Z'' = Some 1709626500000"
    by (simp add: Date_new_def example_fields example_time_value)
  with w detectedAtString_well_formed [OF w, of sample_runtime] show ?thesis by simp
qed

lemma example_normalized:
  "detectedAtString ''2024-03-05 08:15:00+00'' = ''2024-03-05T08:15:00Z''"
  by code_simp

lemma example_local_date:
  "civil_from_days ((1709626500000 + 8 * 3600000) div 86400000) = (2024, 3, 5)"
  by code_simp

lemma decimal_2024: "decimal 2024 = ''2024''"
  by code_simp

lemma example_rendering:
  "toLocaleString rt (Some 1709626500000) =
     ''Mar 05, 2024, 04:15'' @ day_period_space rt @ ''PM''"
  unfolding toLocaleString_def option.case Let_def example_local_date
  by (simp add: decimal_2024 month_short_def two_digits_def)

lemma example_formatted:
  "formattedTime rt ''2024-03-05 08:15:00+00'' =
     ''Mar 05, 2024, 04:15'' @ day_period_space rt @ ''PM''"
  by (simp add: formattedTime_def detectedAtUTC_def example_normalized Date_new_def
        example_fields example_time_value example_rendering)

text \<open>
  C5: the detected_at string "2024-03-05 08:15:00+00" is normalized to
  "2024-03-05T08:15:00Z", the instant 2024-03-05T08:15:00Z (1709626500000 ms after the
  epoch). Its rendering by the handler is "Mar 05, 2024, 04:15 PM", the date before the
  time as the en-US locale orders them, with the runtime's blank before PM. It is not
  the string "04:15 PM, Mar 05, 2024" that the comment above the options announces.
\<close>

theorem formattedTime_example:
  "detectedAtString ''2024-03-05 08:15:00+00'' = ''2024-03-05T08:15:00Z'' \<and>
   detectedAtUTC rt ''2024-03-05 08:15:00+00'' = Some 1709626500000 \<and>
   formattedTime rt ''2024-03-05 08:15:00+00'' =
     ''Mar 05, 2024, 04:15'' @ day_period_space rt @ ''PM'' \<and>
   formattedTime rt ''2024-03-05 08:15:00+00'' \<noteq> ''04:15 PM, Mar 05, 2024'' \<and>
   formattedTime sample_runtime ''2024-03-05 08:15:00+00'' = ''Mar 05, 2024, 04:15 PM''"
proof -
  have u: "detectedAtUTC rt ''2024-03-05 08:15:00+00'' = Some 1709626500000"
    by (simp add: detectedAtUTC_def example_normalized Date_new_def example_fields
          example_time_value)
  then have f: "formattedTime rt ''2024-03-05 08:15:00+00'' =
      ''Mar 05, 2024, 04:15'' @ day_period_space rt @ ''PM''"
    by (simp add: formattedTime_def example_rendering)
  then have "formattedTime rt ''2024-03-05 08:15:00+00'' \<noteq> ''04:15 PM, Mar 05, 2024''"
    by simp
  moreover have "formattedTime sample_runtime ''2024-03-05 08:15:00+00'' =
      ''Mar 05, 2024, 04:15 PM''"
    by (simp add: example_formatted sample_runtime_def)
  ultimately show ?thesis using u f example_normalized by blast
qed


section \<open>Properties of the handler\<close>

lemma not_found_text:
  \<open>JSON_stringify rt (JObject [(''error'', JString ''Device FCM token not found.'')]) =
     ''{"error":"Device FCM token not found."}''\<close>
  by code_simp

lemma ignored_text:
  \<open>JSON_stringify rt (JObject [(''message'', JString ''Not a smoke_logs insert event.'')]) =
     ''{"message":"Not a smoke_logs insert event."}''\<close>
  by code_simp

lemma handler_ignored:
  assumes "type' payload \<noteq> ''INSERT'' \<or> table payload \<noteq> ''smoke_logs''"
  shows \<open>handler rt account w payload =
    (Returned \<lparr>status = 200, headers = [(''Content-Type'', ''application/json'')],
                body = ''{"message":"Not a smoke_logs insert event."}''\<rparr>, [])\<close>
  using assms unfolding handler_def ignored_text
  by (auto simp: Response_new_def json_headers_def)

lemma handler_not_found:
  assumes "type' payload = ''INSERT''" and "table payload = ''smoke_logs''"
    and "data (single (device_rows w (device_id (record' payload)))) = None \<or>
         (\<exists>dev. data (single (device_rows w (device_id (record' payload)))) = Some dev \<and>
                (fcm_token dev = None \<or> fcm_token dev = Some []))"
  shows \<open>handler rt account w payload =
    (Returned \<lparr>status = 404, headers = [(''Content-Type'', ''application/json'')],
                body = ''{"error":"Device FCM token not found."}''\<rparr>,
     [Device_lookup (device_id (record' payload))])\<close>
proof (cases "data (single (device_rows w (device_id (record' payload))))")
  case None
  with assms(1,2) show ?thesis
    unfolding handler_def not_found_text
    by (simp add: Let_def Response_new_def json_headers_def)
next
  case (Some dev)
  with assms(3) have "fcm_token dev = None \<or> fcm_token dev = Some []" by auto
  then show ?thesis
  proof
    assume "fcm_token dev = None"
    with Some assms(1,2) show ?thesis
      unfolding handler_def not_found_text
      by (simp add: Let_def Response_new_def json_headers_def)
  next
    assume "fcm_token dev = Some []"
    with Some assms(1,2) show ?thesis
      unfolding handler_def not_found_text
      by (simp add: Let_def Response_new_def json_headers_def)
  qed
qed

lemma handler_delivering:
  assumes "Provider_call req \<in> set (snd (handler rt account w payload))"
  shows "\<exists>dev fcmToken accessToken.
           type' payload = ''INSERT'' \<and> table payload = ''smoke_logs'' \<and>
           data (single (device_rows w (device_id (record' payload)))) = Some dev \<and>
           fcm_token dev = Some fcmToken \<and> fcmToken \<noteq> [] \<and>
           authorize w (client_email account) (private_key account)
             [''https://www.googleapis.com/auth/firebase.messaging''] = Inr accessToken \<and>
           req = send_request rt account accessToken fcmToken
                   (notifBody (area dev) (formattedTime rt (detected_at (record' payload)))) \<and>
           fst (handler rt account w payload) =
             (case fetch w req of Inl err \<Rightarrow> Threw (Fetch_error err) | Inr res \<Rightarrow> respond rt res)"
  using assms
  by (auto simp: handler_def deliver_def getAccessToken_def Let_def
           split: if_splits option.splits sum.splits)

lemma sample_lookup:
  "data (single (device_rows (sample_world l st b) (device_id (record' sample_payload)))) =
     data (single l)"
  by (simp add: sample_world_def sample_payload_def)

lemma sample_delivery:
  "handler rt sample_account (sample_world (Rows [sample_device]) st b) sample_payload =
     (respond rt \<lparr>response_status = st, response_body = b\<rparr>,
      [Device_lookup ''d1'',
       Token_acquisition (client_email sample_account) (private_key sample_account),
       Provider_call (send_request rt sample_account ''ya29'' ''tok''
         (notifBody None (formattedTime rt ''2024-03-05 08:15:00+00'')))])"
  by (simp add: handler_def deliver_def getAccessToken_def Let_def sample_world_def
        sample_payload_def sample_device_def single_def)

lemma sample_fetch:
  "fetch (sample_world l st b) req = Inr \<lparr>response_status = st, response_body = b\<rparr>"
  by (simp add: sample_world_def)

text \<open>
  C1: an event whose type is not INSERT or whose table is not smoke_logs is answered
  with status 200 and the body {"message":"Not a smoke_logs insert event."}; the handler
  has then looked up no device, asked for no access token and called no provider.
\<close>

theorem handler_ignores_other_events:
  assumes "type' payload \<noteq> ''INSERT'' \<or> table payload \<noteq> ''smoke_logs''"
  shows \<open>handler rt account w payload =
    (Returned \<lparr>status = 200, headers = [(''Content-Type'', ''application/json'')],
                body = ''{"message":"Not a smoke_logs insert event."}''\<rparr>, [])\<close>
  using assms by (rule handler_ignored)

theorem handler_ignores_other_events_witness:
  \<open>type' (sample_payload\<lparr>table := ''device''\<rparr>) = ''INSERT'' \<and>
   table (sample_payload\<lparr>table := ''device''\<rparr>) = ''device'' \<and>
   handler sample_runtime sample_account (sample_world (Rows [sample_device]) 200 sent_body)
     (sample_payload\<lparr>table := ''device''\<rparr>) =
    (Returned \<lparr>status = 200, headers = [(''Content-Type'', ''application/json'')],
                body = ''{"message":"Not a smoke_logs insert event."}''\<rparr>, [])\<close>
proof -
  have h: "type' (sample_payload\<lparr>table := ''device''\<rparr>) \<noteq> ''INSERT'' \<or>
    table (sample_payload\<lparr>table := ''device''\<rparr>) \<noteq> ''smoke_logs''"
    by simp
  from handler_ignores_other_events [OF h] show ?thesis
    by (simp add: sample_payload_def)
qed

text \<open>
  C2: for an insert event on smoke_logs, when the lookup gives no device, or a device
  whose fcm_token is null or empty, the handler answers with status 404 and the body
  {"error":"Device FCM token not found."}, and does nothing after the lookup.
\<close>

theorem handler_missing_token:
  assumes "type' payload = ''INSERT''" and "table payload = ''smoke_logs''"
    and "data (single (device_rows w (device_id (record' payload)))) = None \<or>
         (\<exists>dev. data (single (device_rows w (device_id (record' payload)))) = Some dev \<and>
                (fcm_token dev = None \<or> fcm_token dev = Some []))"
  shows \<open>handler rt account w payload =
    (Returned \<lparr>status = 404, headers = [(''Content-Type'', ''application/json'')],
                body = ''{"error":"Device FCM token not found."}''\<rparr>,
     [Device_lookup (device_id (record' payload))])\<close>
  using assms by (rule handler_not_found)

theorem handler_missing_token_witness:
  \<open>type' sample_payload = ''INSERT'' \<and> table sample_payload = ''smoke_logs'' \<and>
   data (single (device_rows
      (sample_world (Rows [sample_device\<lparr>fcm_token := Some [], area := Some ''Kitchen''\<rparr>]) 200 sent_body)
      (device_id (record' sample_payload)))) =
     Some (sample_device\<lparr>fcm_token := Some [], area := Some ''Kitchen''\<rparr>) \<and>
   handler sample_runtime sample_account
     (sample_world (Rows [sample_device\<lparr>fcm_token := Some [], area := Some ''Kitchen''\<rparr>]) 200 sent_body)
     sample_payload =
    (Returned \<lparr>status = 404, headers = [(''Content-Type'', ''application/json'')],
                body = ''{"error":"Device FCM token not found."}''\<rparr>,
     [Device_lookup ''d1''])\<close>
proof -
  let ?dev = "sample_device\<lparr>fcm_token := Some [], area := Some ''Kitchen''\<rparr>"
  let ?w = "sample_world (Rows [?dev]) 200 sent_body"
  have a: "type' sample_payload = ''INSERT''" and b: "table sample_payload = ''smoke_logs''"
    by (simp_all add: sample_payload_def)
  have d: "data (single (device_rows ?w (device_id (record' sample_payload)))) = Some ?dev"
    by (subst sample_lookup) (simp add: single_def)
  have c: "data (single (device_rows ?w (device_id (record' sample_payload)))) = None \<or>
         (\<exists>dev. data (single (device_rows ?w (device_id (record' sample_payload)))) = Some dev \<and>
                (fcm_token dev = None \<or> fcm_token dev = Some []))"
    using d by simp
  have i: "device_id (record' sample_payload) = ''d1''" by (simp add: sample_payload_def)
  from handler_missing_token [OF a b c, of sample_runtime sample_account] a b d i
  show ?thesis by simp
qed


text \<open>
  C10: for an insert event on smoke_logs, every answer of the store other than exactly
  one row with a non-empty fcm_token (no row, several rows, a failed query, a row
  without a token) ends in the same response, status 404 with the body
  {"error":"Device FCM token not found."}: the handler reads only the data of the
  result, never its error.
\<close>

theorem handler_lookup_failures_alike:
  assumes "type' payload = ''INSERT''" and "table payload = ''smoke_logs''"
    and "\<not> (\<exists>dev tok. device_rows w (device_id (record' payload)) = Rows [dev] \<and>
                      fcm_token dev = Some tok \<and> tok \<noteq> [])"
  shows \<open>handler rt account w payload =
    (Returned \<lparr>status = 404, headers = [(''Content-Type'', ''application/json'')],
                body = ''{"error":"Device FCM token not found."}''\<rparr>,
     [Device_lookup (device_id (record' payload))])\<close>
proof -
  let ?l = "device_rows w (device_id (record' payload))"
  have "data (single ?l) = None \<or>
        (\<exists>dev. data (single ?l) = Some dev \<and> (fcm_token dev = None \<or> fcm_token dev = Some []))"
  proof (cases ?l)
    case (Query_failed e)
    then show ?thesis by (simp add: single_def)
  next
    case (Rows ds)
    show ?thesis
    proof (cases ds)
      case Nil
      with Rows show ?thesis by (simp add: single_def)
    next
      case (Cons d ds')
      show ?thesis
      proof (cases ds')
        case Nil
        with Rows Cons have one: "?l = Rows [d]" by simp
        with assms(3) have "fcm_token d = None \<or> fcm_token d = Some []"
          by (cases "fcm_token d") auto
        with one show ?thesis by (simp add: single_def)
      next
        case (Cons d' ds'')
        with Rows \<open>ds = d # ds'\<close> show ?thesis by (simp add: single_def)
      qed
    qed
  qed
  with assms(1,2) show ?thesis by (rule handler_not_found)
qed

theorem handler_lookup_failures_alike_witness:
  \<open>type' sample_payload = ''INSERT'' \<and> table sample_payload = ''smoke_logs'' \<and>
   device_rows (sample_world (Query_failed ''timeout'') 200 sent_body)
     (device_id (record' sample_payload)) = Query_failed ''timeout'' \<and>
   handler sample_runtime sample_account (sample_world (Query_failed ''timeout'') 200 sent_body)
     sample_payload =
    (Returned \<lparr>status = 404, headers = [(''Content-Type'', ''application/json'')],
                body = ''{"error":"Device FCM token not found."}''\<rparr>,
     [Device_lookup ''d1''])\<close>
proof -
  let ?w = "sample_world (Query_failed ''timeout'') 200 sent_body"
  have a: "type' sample_payload = ''INSERT''" and b: "table sample_payload = ''smoke_logs''"
    by (simp_all add: sample_payload_def)
  have l: "device_rows ?w (device_id (record' sample_payload)) = Query_failed ''timeout''"
    by (simp add: sample_world_def sample_payload_def)
  have c: "\<not> (\<exists>dev tok. device_rows ?w (device_id (record' sample_payload)) = Rows [dev] \<and>
                      fcm_token dev = Some tok \<and> tok \<noteq> [])"
    by (simp add: l)
  have i: "device_id (record' sample_payload) = ''d1''" by (simp add: sample_payload_def)
  from handler_lookup_failures_alike [OF a b c, of sample_runtime sample_account] a b l i
  show ?thesis by simp
qed

lemma not_json: "Response_json ''Forbidden'' = None"
  by code_simp

text \<open>
  C3 as stated does not hold: the provider answers 403 with the body Forbidden, which is
  not JSON. \<open>res.json()\<close> is awaited before the status is tested, so the handler throws
  the SyntaxError of the parse; there is no parsed body to throw.
\<close>

theorem handler_throws_parse_error:
  "fetch (sample_world (Rows [sample_device]) 403 ''Forbidden'')
      (send_request sample_runtime sample_account ''ya29'' ''tok''
         (notifBody None (formattedTime sample_runtime ''2024-03-05 08:15:00+00''))) =
     Inr \<lparr>response_status = 403, response_body = ''Forbidden''\<rparr> \<and>
   Response_json ''Forbidden'' = None \<and>
   handler sample_runtime sample_account (sample_world (Rows [sample_device]) 403 ''Forbidden'')
      sample_payload =
     (Threw SyntaxError,
      [Device_lookup ''d1'',
       Token_acquisition (client_email sample_account) (private_key sample_account),
       Provider_call (send_request sample_runtime sample_account ''ya29'' ''tok''
         (notifBody None (formattedTime sample_runtime ''2024-03-05 08:15:00+00'')))])"
proof -
  have r: "respond sample_runtime \<lparr>response_status = 403, response_body = ''Forbidden''\<rparr> =
      Threw SyntaxError"
    unfolding respond_def fetch_response.simps not_json option.case by (rule refl)
  from r not_json show ?thesis
    by (simp add: sample_delivery sample_fetch)
qed

text \<open>
  C3, amended: when the provider answers the handler's call with a status below 200 or
  above 299 and a body that parses as JSON, the handler throws the parsed body. For
  every such status, also with a body that is not JSON (then \<open>res.json()\<close> throws its
  SyntaxError), the invocation ends abnormally and the handler returns no response of its
  own, so none with status 200.
\<close>

theorem handler_provider_error:
  assumes "Provider_call req \<in> set (snd (handler rt account w payload))"
    and "fetch w req = Inr res"
    and "response_status res < 200 \<or> 299 < response_status res"
  shows "fst (handler rt account w payload) =
           (case Response_json (response_body res) of
              Some resData \<Rightarrow> Threw (Provider_error resData)
            | None \<Rightarrow> Threw SyntaxError) \<and>
         (\<forall>r. fst (handler rt account w payload) \<noteq> Returned r)"
proof -
  from handler_delivering [OF assms(1)] assms(2)
  have "fst (handler rt account w payload) = respond rt res" by auto
  with assms(3) show ?thesis
    by (auto simp: respond_def split: option.splits)
qed

lemma error_body:
  \<open>Response_json ''{"error": {"code": 403, "status": "PERMISSION_DENIED"}}'' =
     Some (JObject [(''error'', JObject [(''code'', JNumber ''403''),
                                         (''status'', JString ''PERMISSION_DENIED'')])])\<close>
  by code_simp

theorem handler_provider_error_witness:
  \<open>Provider_call (send_request sample_runtime sample_account ''ya29'' ''tok''
       (notifBody None (formattedTime sample_runtime ''2024-03-05 08:15:00+00'')))
     \<in> set (snd (handler sample_runtime sample_account
          (sample_world (Rows [sample_device]) 403
             ''{"error": {"code": 403, "status": "PERMISSION_DENIED"}}'') sample_payload)) \<and>
   fst (handler sample_runtime sample_account
          (sample_world (Rows [sample_device]) 403
             ''{"error": {"code": 403, "status": "PERMISSION_DENIED"}}'') sample_payload) =
     Threw (Provider_error (JObject [(''error'', JObject [(''code'', JNumber ''403''),
                                         (''status'', JString ''PERMISSION_DENIED'')])]))\<close>
proof -
  let ?b = \<open>''{"error": {"code": 403, "status": "PERMISSION_DENIED"}}''\<close>
  let ?w = "sample_world (Rows [sample_device]) 403 ?b"
  let ?req = "send_request sample_runtime sample_account ''ya29'' ''tok''
       (notifBody None (formattedTime sample_runtime ''2024-03-05 08:15:00+00''))"
  let ?res = "\<lparr>response_status = 403, response_body = ?b\<rparr>"
  have c: "Provider_call ?req \<in> set (snd (handler sample_runtime sample_account ?w sample_payload))"
    by (simp add: sample_delivery)
  have f: "fetch ?w ?req = Inr ?res" by (rule sample_fetch)
  have s: "response_status ?res < 200 \<or> 299 < response_status ?res" by simp
  from handler_provider_error [OF c f s] c show ?thesis
    by (simp add: error_body)
qed

text \<open>
  C7: the request of every provider call carries the title "Smoke Alert!" and the body
  "A SMOKE HAS BEEN DETECTED", "AT: " with the area of the device, "ON: " with the
  formatted time, on three lines; the second line is "AT: Unknown" when the area of the
  device is null or empty.
\<close>

theorem handler_notification_content:
  assumes "Provider_call req \<in> set (snd (handler rt account w payload))"
  shows "\<exists>dev fcmToken.
           data (single (device_rows w (device_id (record' payload)))) = Some dev \<and>
           fcm_token dev = Some fcmToken \<and>
           request_body req = JSON_stringify rt
             (JObject [(''message'', JObject
                [(''token'', JString fcmToken),
                 (''notification'', JObject
                    [(''title'', JString ''Smoke Alert!''),
                     (''body'', JString
                        (''A SMOKE HAS BEEN DETECTED'' @ [CHR 0x0A]
                         @ ''AT: '' @ (case area dev of None \<Rightarrow> ''Unknown''
                                       | Some a \<Rightarrow> if a = [] then ''Unknown'' else a)
                         @ [CHR 0x0A]
                         @ ''ON: '' @ formattedTime rt (detected_at (record' payload))))])])])"
proof -
  from handler_delivering [OF assms] obtain dev fcmToken accessToken where
    d: "data (single (device_rows w (device_id (record' payload)))) = Some dev"
       "fcm_token dev = Some fcmToken"
    and r: "req = send_request rt account accessToken fcmToken
                   (notifBody (area dev) (formattedTime rt (detected_at (record' payload))))"
    by blast
  have "request_body req = JSON_stringify rt
          (message fcmToken (notifBody (area dev) (formattedTime rt (detected_at (record' payload)))))"
    by (simp add: r send_request_def)
  with d show ?thesis
    unfolding message_def notifBody_def by blast
qed

theorem handler_notification_content_witness:
  \<open>Provider_call (send_request sample_runtime sample_account ''ya29'' ''tok''
       (notifBody None (formattedTime sample_runtime ''2024-03-05 08:15:00+00'')))
     \<in> set (snd (handler sample_runtime sample_account
          (sample_world (Rows [sample_device]) 200 sent_body) sample_payload)) \<and>
   request_body (send_request sample_runtime sample_account ''ya29'' ''tok''
       (notifBody None (formattedTime sample_runtime ''2024-03-05 08:15:00+00''))) =
     JSON_stringify sample_runtime
       (JObject [(''message'', JObject
          [(''token'', JString ''tok''),
           (''notification'', JObject
              [(''title'', JString ''Smoke Alert!''),
               (''body'', JString
                  (''A SMOKE HAS BEEN DETECTED'' @ [CHR 0x0A] @ ''AT: Unknown'' @ [CHR 0x0A]
                   @ ''ON: Mar 05, 2024, 04:15 PM''))])])])\<close>
proof -
  let ?w = "sample_world (Rows [sample_device]) 200 sent_body"
  let ?req = "send_request sample_runtime sample_account ''ya29'' ''tok''
       (notifBody None (formattedTime sample_runtime ''2024-03-05 08:15:00+00''))"
  have c: "Provider_call ?req \<in> set (snd (handler sample_runtime sample_account ?w sample_payload))"
    by (simp add: sample_delivery)
  have d: "data (single (device_rows ?w (device_id (record' sample_payload)))) = Some sample_device"
    by (subst sample_lookup) (simp add: single_def)
  have t: "formattedTime sample_runtime (detected_at (record' sample_payload)) =
      ''Mar 05, 2024, 04:15 PM''"
    by (simp add: sample_payload_def example_formatted sample_runtime_def)
  from handler_notification_content [OF c] obtain dev fcmToken where
    o: "data (single (device_rows ?w (device_id (record' sample_payload)))) = Some dev"
       "fcm_token dev = Some fcmToken"
    and b: "request_body ?req = JSON_stringify sample_runtime
             (JObject [(''message'', JObject
                [(''token'', JString fcmToken),
                 (''notification'', JObject
                    [(''title'', JString ''Smoke Alert!''),
                     (''body'', JString
                        (''A SMOKE HAS BEEN DETECTED'' @ [CHR 0x0A]
                         @ ''AT: '' @ (case area dev of None \<Rightarrow> ''Unknown''
                                       | Some a \<Rightarrow> if a = [] then ''Unknown'' else a)
                         @ [CHR 0x0A]
                         @ ''ON: '' @ formattedTime sample_runtime (detected_at (record' sample_payload))))])])])"
    by blast
  from o d have a: "area dev = None" and k: "fcmToken = ''tok''"
    by (simp_all add: sample_device_def)
  have s: "''A SMOKE HAS BEEN DETECTED'' @ [CHR 0x0A] @ ''AT: '' @ ''Unknown'' @ [CHR 0x0A]
             @ ''ON: '' @ ''Mar 05, 2024, 04:15 PM'' =
           ''A SMOKE HAS BEEN DETECTED'' @ [CHR 0x0A] @ ''AT: Unknown'' @ [CHR 0x0A]
             @ ''ON: Mar 05, 2024, 04:15 PM''"
    by simp
  from c b [unfolded a k t option.case s] show ?thesis by (rule conjI)
qed


lemma sent_parsed:
  "Response_json sent_body = Some (JObject [(''name'', JString ''projects/p/messages/1'')])"
  by code_simp

lemma sent_text:
  \<open>JSON_stringify rt (JObject [(''name'', JString ''projects/p/messages/1'')]) =
     ''{"name":"projects/p/messages/1"}''\<close>
  by code_simp

text \<open>
  C6 as stated does not hold: the provider answers 200 with the indented text of
  \<open>sent_body\<close> (an opening brace, a line with the name, a closing brace, each ended by a
  line feed), and the handler answers with the compact text {"name":"projects/p/messages/1"}.
\<close>

theorem handler_body_not_verbatim:
  \<open>fetch (sample_world (Rows [sample_device]) 200 sent_body)
      (send_request sample_runtime sample_account ''ya29'' ''tok''
         (notifBody None (formattedTime sample_runtime ''2024-03-05 08:15:00+00''))) =
     Inr \<lparr>response_status = 200, response_body = sent_body\<rparr> \<and>
   handler sample_runtime sample_account (sample_world (Rows [sample_device]) 200 sent_body)
      sample_payload =
     (Returned \<lparr>status = 200, headers = [(''Content-Type'', ''application/json'')],
                 body = ''{"name":"projects/p/messages/1"}''\<rparr>,
      [Device_lookup ''d1'',
       Token_acquisition (client_email sample_account) (private_key sample_account),
       Provider_call (send_request sample_runtime sample_account ''ya29'' ''tok''
         (notifBody None (formattedTime sample_runtime ''2024-03-05 08:15:00+00'')))]) \<and>
   ''{"name":"projects/p/messages/1"}'' \<noteq> sent_body\<close>
proof -
  have r: \<open>respond sample_runtime \<lparr>response_status = 200, response_body = sent_body\<rparr> =
      Returned \<lparr>status = 200, headers = [(''Content-Type'', ''application/json'')],
                 body = ''{"name":"projects/p/messages/1"}''\<rparr>\<close>
    unfolding respond_def fetch_response.simps sent_parsed option.case sent_text
    by (simp add: Response_new_def json_headers_def)
  have n: \<open>''{"name":"projects/p/messages/1"}'' \<noteq> sent_body\<close>
    by (simp add: sent_body_def)
  from r n show ?thesis
    by (simp add: sample_delivery sample_fetch)
qed

text \<open>
  C6, amended: when the provider answers the handler's call with a status from 200 to
  299 and a body that parses as JSON, the handler returns a response whose body is the
  JSON text written anew from the parsed value (\<open>JSON.stringify\<close>: the same value in
  compact form, not the bytes received). The response is built without a status and so
  has the default, 200.
\<close>

theorem handler_provider_success:
  assumes "Provider_call req \<in> set (snd (handler rt account w payload))"
    and "fetch w req = Inr res"
    and "200 \<le> response_status res" and "response_status res \<le> 299"
    and "Response_json (response_body res) = Some resData"
  shows "fst (handler rt account w payload) =
           Returned (Response_new (JSON_stringify rt resData)
                       [(''Content-Type'', ''application/json'')] None) \<and>
         Response_new (JSON_stringify rt resData) [(''Content-Type'', ''application/json'')] None =
           \<lparr>status = 200, headers = [(''Content-Type'', ''application/json'')],
            body = JSON_stringify rt resData\<rparr>"
proof -
  from handler_delivering [OF assms(1)] assms(2)
  have "fst (handler rt account w payload) = respond rt res" by auto
  with assms(3,4,5) show ?thesis
    by (simp add: respond_def Response_new_def json_headers_def)
qed

theorem handler_provider_success_witness:
  \<open>Provider_call (send_request sample_runtime sample_account ''ya29'' ''tok''
       (notifBody None (formattedTime sample_runtime ''2024-03-05 08:15:00+00'')))
     \<in> set (snd (handler sample_runtime sample_account
          (sample_world (Rows [sample_device]) 200 sent_body) sample_payload)) \<and>
   Response_json sent_body = Some (JObject [(''name'', JString ''projects/p/messages/1'')]) \<and>
   fst (handler sample_runtime sample_account
          (sample_world (Rows [sample_device]) 200 sent_body) sample_payload) =
     Returned \<lparr>status = 200, headers = [(''Content-Type'', ''application/json'')],
                body = JSON_stringify sample_runtime
                         (JObject [(''name'', JString ''projects/p/messages/1'')])\<rparr>\<close>
proof -
  let ?w = "sample_world (Rows [sample_device]) 200 sent_body"
  let ?req = "send_request sample_runtime sample_account ''ya29'' ''tok''
       (notifBody None (formattedTime sample_runtime ''2024-03-05 08:15:00+00''))"
  let ?res = "\<lparr>response_status = 200, response_body = sent_body\<rparr>"
  have c: "Provider_call ?req \<in> set (snd (handler sample_runtime sample_account ?w sample_payload))"
    by (simp add: sample_delivery)
  have f: "fetch ?w ?req = Inr ?res" by (rule sample_fetch)
  have lo: "200 \<le> response_status ?res" and hi: "response_status ?res \<le> 299" by simp_all
  have p: "Response_json (response_body ?res) =
      Some (JObject [(''name'', JString ''projects/p/messages/1'')])"
    by (simp add: sent_parsed)
  from handler_provider_success [OF c f lo hi p] have
    "fst (handler sample_runtime sample_account ?w sample_payload) =
     Returned \<lparr>status = 200, headers = [(''Content-Type'', ''application/json'')],
                body = JSON_stringify sample_runtime
                         (JObject [(''name'', JString ''projects/p/messages/1'')])\<rparr>"
    by (simp only:)
  with c sent_parsed show ?thesis by blast
qed


end
